theory Spec2Isabelle
  imports Complex_Main
begin

section \<open>Batch Export Meshes: the host state\<close>

text \<open>
  The add-on of \<^verbatim>\<open>BatchExportMeshes.py\<close> is a script over the state of its host: the
  objects of the view layer, their selection flags and locations, the active object, and
  the exporters it calls. The host state is made explicit here. An object is referred
  to by an identifier; the objects themselves live in a store, as the script mutates
  them through references (\<^verbatim>\<open>obj.select_set\<close>, \<^verbatim>\<open>obj.location = ...\<close>).

  A location is a vector of three coordinates. The script only copies and assigns
  locations and never computes with them, so the coordinates are taken as reals.
\<close>

type_synonym oid = nat

type_synonym Vector = "real \<times> real \<times> real"

record obj =
  obj_name :: string
  obj_type :: string
  obj_location :: Vector
  obj_select :: bool

text \<open>
  \<open>objects\<close> lists the objects of the view layer, \<open>active\<close> is
  \<^verbatim>\<open>view_layer.objects.active\<close> (which may be \<^verbatim>\<open>None\<close>).
\<close>

record scene =
  objects :: "oid list"
  store :: "oid \<Rightarrow> obj"
  active :: "oid option"

text \<open>
  The exporter operators of the host: the three the script calls, and the host's Collada
  exporter \<^verbatim>\<open>bpy.ops.wm.collada_export\<close>, which it never calls. A call is
  recorded with its keyword arguments.
\<close>

datatype exporter =
  export_scene_fbx | export_scene_obj | export_scene_gltf | wm_collada_export

record export_call =
  call_op :: exporter
  call_filepath :: string
  call_use_selection :: bool
  call_export_format :: "string option"

datatype error = Exception string | RuntimeError string

text \<open>
  What the script takes from its environment without defining it: the functions of
  \<^verbatim>\<open>os.path\<close>, the name cleaning of \<^verbatim>\<open>bpy.path\<close>, the path of the
  open blend file (empty when it was never saved), and whether an exporter call fails.
  They are parameters of the model.
\<close>

record host =
  os_path_isdir :: "string \<Rightarrow> bool"
  os_path_dirname :: "string \<Rightarrow> string"
  os_path_join :: "string \<Rightarrow> string \<Rightarrow> string"
  bpy_path_clean_name :: "string \<Rightarrow> string"
  bpy_data_filepath :: string
  export_raises :: "export_call \<Rightarrow> scene \<Rightarrow> bool"

text \<open>
  The world the script runs in: the scene, the exporter calls made so far, each with
  the scene as it was at the moment of the call, and the messages reported to the user.
\<close>

record world =
  scn :: scene
  calls :: "(export_call \<times> scene) list"
  reports :: "(string set \<times> string) list"

record props =
  prop_filepath :: string
  prop_freeze_locations :: bool
  prop_mesh_name_prefix :: string
  prop_file_type :: string

section \<open>Host operations\<close>

text \<open>\<^verbatim>\<open>bpy.context.selected_objects\<close>\<close>

definition selected_objects :: "scene \<Rightarrow> oid list" where
  "selected_objects sc = filter (\<lambda>i. obj_select (store sc i)) (objects sc)"

text \<open>\<^verbatim>\<open>obj.select_set(b)\<close>\<close>

definition select_set :: "oid \<Rightarrow> bool \<Rightarrow> scene \<Rightarrow> scene" where
  "select_set i b sc = sc\<lparr>store := (store sc)(i := (store sc i)\<lparr>obj_select := b\<rparr>)\<rparr>"

text \<open>\<^verbatim>\<open>obj.location = v\<close>\<close>

definition set_location :: "oid \<Rightarrow> Vector \<Rightarrow> scene \<Rightarrow> scene" where
  "set_location i v sc = sc\<lparr>store := (store sc)(i := (store sc i)\<lparr>obj_location := v\<rparr>)\<rparr>"

text \<open>\<^verbatim>\<open>bpy.ops.object.select_all(action='DESELECT')\<close>\<close>

definition select_all_DESELECT :: "scene \<Rightarrow> scene" where
  "select_all_DESELECT sc =
     sc\<lparr>store := (\<lambda>i. if i \<in> set (objects sc) then (store sc i)\<lparr>obj_select := False\<rparr>
                        else store sc i)\<rparr>"

text \<open>
  A call of an exporter operator. The call is recorded with the scene it sees; the host
  decides whether it fails, and a failure is raised as \<^verbatim>\<open>RuntimeError\<close>. The
  exporters are taken to leave the scene as it is.
\<close>

definition bpy_ops_export :: "host \<Rightarrow> export_call \<Rightarrow> world \<Rightarrow> (error + unit) \<times> world" where
  "bpy_ops_export h c w =
     (let w' = w\<lparr>calls := calls w @ [(c, scn w)]\<rparr>
      in if export_raises h c (scn w) then (Inl (RuntimeError ''exporter failed''), w')
         else (Inr (), w'))"

text \<open>Python's \<^verbatim>\<open>str.rfind\<close> for one character: the highest index, or \<open>-1\<close>.\<close>

fun rfind :: "string \<Rightarrow> char \<Rightarrow> int" where
  "rfind [] c = - 1"
| "rfind (x # xs) c =
     (let r = rfind xs c
      in if r \<noteq> - 1 then r + 1 else if x = c then 0 else - 1)"

section \<open>The export routine\<close>

text \<open>
  The \<^verbatim>\<open>match file_type\<close> statement of \<^verbatim>\<open>batch_export_meshes\<close>: one
  exporter call per case, and no call when no case matches.
\<close>

definition export_by_file_type ::
  "host \<Rightarrow> string \<Rightarrow> string \<Rightarrow> world \<Rightarrow> (error + unit) \<times> world" where
  "export_by_file_type h file_type fn w =
     (if file_type = ''FBX'' then
        bpy_ops_export h \<lparr>call_op = export_scene_fbx, call_filepath = fn @ ''.fbx'',
          call_use_selection = True, call_export_format = None\<rparr> w
      else if file_type = ''OBJ'' then
        bpy_ops_export h \<lparr>call_op = export_scene_obj, call_filepath = fn @ ''.obj'',
          call_use_selection = True, call_export_format = None\<rparr> w
      else if file_type = ''GLTF'' then
        bpy_ops_export h \<lparr>call_op = export_scene_gltf, call_filepath = fn @ ''.gltf'',
          call_use_selection = True, call_export_format = Some ''GLTF_SEPARATE''\<rparr> w
      else if file_type = ''DAE'' then
        bpy_ops_export h \<lparr>call_op = export_scene_fbx, call_filepath = fn @ ''.dae'',
          call_use_selection = True, call_export_format = None\<rparr> w
      else (Inr (), w))"

text \<open>
  The body of the loop \<^verbatim>\<open>for obj in selection\<close>. An exception of the exporter
  leaves the body at the call, with the state as it is there.
\<close>

definition export_object ::
  "host \<Rightarrow> string \<Rightarrow> bool \<Rightarrow> string \<Rightarrow> string \<Rightarrow> oid \<Rightarrow> world \<Rightarrow> (error + unit) \<times> world" where
  "export_object h basedir freeze_locations file_type mesh_name_prefix obj w =
     (if obj_type (store (scn w) obj) \<noteq> ''MESH'' \<and> obj_type (store (scn w) obj) \<noteq> ''ARMATURE''
      then (Inr (), w)
      else
        let w1 = w\<lparr>scn := select_set obj True (scn w)\<rparr>;
            saved_location = obj_location (store (scn w1) obj);
            w2 = (if freeze_locations then w1\<lparr>scn := set_location obj (0, 0, 0) (scn w1)\<rparr>
                  else w1);
            w3 = w2\<lparr>scn := (scn w2)\<lparr>active := Some obj\<rparr>\<rparr>;
            name0 = bpy_path_clean_name h (obj_name (store (scn w3) obj));
            name1 = (if mesh_name_prefix \<noteq> [] then mesh_name_prefix @ name0 else name0);
            fn = os_path_join h basedir name1
        in case export_by_file_type h file_type fn w3 of
             (Inl e, w4) \<Rightarrow> (Inl e, w4)
           | (Inr u, w4) \<Rightarrow>
               (Inr (), w4\<lparr>scn := set_location obj saved_location
                                     (select_set obj False (scn w4))\<rparr>))"

fun export_loop ::
  "host \<Rightarrow> string \<Rightarrow> bool \<Rightarrow> string \<Rightarrow> string \<Rightarrow> oid list \<Rightarrow> world \<Rightarrow> (error + unit) \<times> world" where
  "export_loop h basedir freeze_locations file_type mesh_name_prefix [] w = (Inr (), w)"
| "export_loop h basedir freeze_locations file_type mesh_name_prefix (obj # rest) w =
     (case export_object h basedir freeze_locations file_type mesh_name_prefix obj w of
        (Inl e, w') \<Rightarrow> (Inl e, w')
      | (Inr u, w') \<Rightarrow> export_loop h basedir freeze_locations file_type mesh_name_prefix rest w')"

text \<open>The directory the routine exports to: its argument, or that of the blend file.\<close>

definition basedir_of :: "host \<Rightarrow> string \<Rightarrow> string" where
  "basedir_of h directory =
     (if directory = [] \<or> directory = '''' then os_path_dirname h (bpy_data_filepath h)
      else directory)"

definition batch_export_meshes ::
  "host \<Rightarrow> string \<Rightarrow> bool \<Rightarrow> string \<Rightarrow> string \<Rightarrow> world \<Rightarrow> (error + unit) \<times> world" where
  "batch_export_meshes h directory freeze_locations file_type mesh_name_prefix w =
     (let basedir = basedir_of h directory
      in if basedir = [] then (Inl (Exception ''Blend file is not saved''), w)
         else
           let obj_active = active (scn w);
               selection = selected_objects (scn w);
               w1 = w\<lparr>scn := select_all_DESELECT (scn w)\<rparr>
           in case export_loop h basedir freeze_locations file_type mesh_name_prefix
                     selection w1 of
                (Inl e, w2) \<Rightarrow> (Inl e, w2)
              | (Inr u, w2) \<Rightarrow>
                  (Inr (), w2\<lparr>scn := fold (\<lambda>obj. select_set obj True) selection
                                        ((scn w2)\<lparr>active := obj_active\<rparr>)\<rparr>))"

section \<open>The operator\<close>

text \<open>
  The first lines of \<^verbatim>\<open>BatchExport.execute\<close>: the path is cut at its last
  backslash, when it has one.
\<close>

definition export_directory :: "string \<Rightarrow> string" where
  "export_directory filepath =
     (let directory = filepath;
          last_slash = rfind directory (CHR 0x5C)
      in if last_slash \<noteq> - 1 then take (nat last_slash) directory else directory)"

definition execute :: "host \<Rightarrow> props \<Rightarrow> world \<Rightarrow> (error + string set) \<times> world" where
  "execute h self w =
     (let directory = export_directory (prop_filepath self)
      in if \<not> os_path_isdir h directory then
           (Inr {''FINISHED''},
            w\<lparr>reports := reports w @ [({''WARNING''}, ''Please select a valid path'')]\<rparr>)
         else
           case batch_export_meshes h directory (prop_freeze_locations self)
                  (prop_file_type self) (prop_mesh_name_prefix self) w of
             (Inl e, w') \<Rightarrow> (Inl e, w')
           | (Inr u, w') \<Rightarrow> (Inr {''FINISHED''}, w'))"

section \<open>A concrete host and scene\<close>

text \<open>
  The model is run on the example of the add-on's description: a mesh and a light, both
  selected, exported to \<^verbatim>\<open>/out\<close>. The host of the example joins and splits
  paths as \<^verbatim>\<open>posixpath\<close> does, cleans a name by replacing every character
  but letters, digits and the underscore, has no saved blend file, and its exporters
  do not fail.
\<close>

definition posix_join :: "string \<Rightarrow> string \<Rightarrow> string" where
  "posix_join a b =
     (if b \<noteq> [] \<and> hd b = CHR ''/'' then b
      else if a = [] \<or> last a = CHR ''/'' then a @ b
      else a @ ''/'' @ b)"

definition posix_dirname :: "string \<Rightarrow> string" where
  "posix_dirname p =
     (let i = rfind p (CHR ''/'') + 1;
          head = take (nat i) p
      in if head \<noteq> [] \<and> head \<noteq> replicate (length head) (CHR ''/'')
         then rev (dropWhile (\<lambda>c. c = CHR ''/'') (rev head)) else head)"

definition example_clean_name :: "string \<Rightarrow> string" where
  "example_clean_name s =
     map (\<lambda>c. if c \<in> set ''ABCDEFGHIJKLMNOPQRSTUVWXYZabcdefghijklmnopqrstuvwxyz0123456789_''
               then c else CHR ''_'') s"

definition example_host :: host where
  "example_host =
     \<lparr>os_path_isdir = (\<lambda>p. p = ''/out''),
      os_path_dirname = posix_dirname,
      os_path_join = posix_join,
      bpy_path_clean_name = example_clean_name,
      bpy_data_filepath = [],
      export_raises = (\<lambda>c sc. False)\<rparr>"

definition MeshA :: obj where
  "MeshA = \<lparr>obj_name = ''MeshA'', obj_type = ''MESH'', obj_location = (1, 2, 3),
     obj_select = True\<rparr>"

definition LightB :: obj where
  "LightB = \<lparr>obj_name = ''LightB'', obj_type = ''LIGHT'', obj_location = (4, 5, 6),
     obj_select = True\<rparr>"

definition example_scene :: scene where
  "example_scene =
     \<lparr>objects = [0, 1], store = (\<lambda>i. if i = 0 then MeshA else LightB), active = Some 1\<rparr>"

definition example_world :: world where
  "example_world = \<lparr>scn = example_scene, calls = [], reports = []\<rparr>"

definition example_props :: "string \<Rightarrow> string \<Rightarrow> props" where
  "example_props filepath file_type =
     \<lparr>prop_filepath = filepath, prop_freeze_locations = True,
      prop_mesh_name_prefix = ''SM_'', prop_file_type = file_type\<rparr>"

text \<open>
  The routine run on the example, and a second world in which only the light is selected.
\<close>

definition example_run :: "bool \<Rightarrow> string \<Rightarrow> (error + unit) \<times> world" where
  "example_run freeze_locations file_type =
     batch_export_meshes example_host ''/out'' freeze_locations file_type ''SM_'' example_world"

definition example_lights :: world where
  "example_lights =
     \<lparr>scn = \<lparr>objects = [0, 1],
              store = (\<lambda>i. if i = 0 then MeshA\<lparr>obj_select := False\<rparr> else LightB),
              active = Some 1\<rparr>,
      calls = [], reports = []\<rparr>"

section \<open>Notions used in the statements\<close>

text \<open>
  The objects the loop does not skip; two scenes that differ at most in selection flags
  and active object; the scene the exporter sees when it is called for an object; and what
  is recorded of the call made for an object, relative to the scene \<open>sc\<close> the
  loop started from.
\<close>

definition exportable :: "scene \<Rightarrow> oid \<Rightarrow> bool" where
  "exportable sc obj =
     (obj_type (store sc obj) = ''MESH'' \<or> obj_type (store sc obj) = ''ARMATURE'')"

definition same_data :: "scene \<Rightarrow> scene \<Rightarrow> bool" where
  "same_data sc sc' =
     (objects sc' = objects sc \<and>
      (\<forall>i. obj_name (store sc' i) = obj_name (store sc i) \<and>
           obj_type (store sc' i) = obj_type (store sc i) \<and>
           obj_location (store sc' i) = obj_location (store sc i)))"

definition scene_at_call :: "bool \<Rightarrow> oid \<Rightarrow> scene \<Rightarrow> scene" where
  "scene_at_call fl obj sc =
     (if fl then set_location obj (0, 0, 0) (select_set obj True sc)
      else select_set obj True sc)\<lparr>active := Some obj\<rparr>"

definition call_for ::
  "host \<Rightarrow> string \<Rightarrow> bool \<Rightarrow> string \<Rightarrow> string \<Rightarrow> scene \<Rightarrow> oid \<Rightarrow> export_call \<times> scene \<Rightarrow> bool" where
  "call_for h basedir fl ft pre sc obj x =
     (let c = fst x; snap = snd x;
          fn = os_path_join h basedir (pre @ bpy_path_clean_name h (obj_name (store sc obj)))
      in exportable sc obj \<and>
         call_use_selection c \<and>
         ((ft = ''FBX'' \<and> call_op c = export_scene_fbx \<and> call_filepath c = fn @ ''.fbx'') \<or>
          (ft = ''OBJ'' \<and> call_op c = export_scene_obj \<and> call_filepath c = fn @ ''.obj'') \<or>
          (ft = ''GLTF'' \<and> call_op c = export_scene_gltf \<and> call_filepath c = fn @ ''.gltf'') \<or>
          (ft = ''DAE'' \<and> call_op c = export_scene_fbx \<and> call_filepath c = fn @ ''.dae'')) \<and>
         objects snap = objects sc \<and>
         active snap = Some obj \<and>
         obj_select (store snap obj) \<and>
         (\<forall>i. obj_location (store snap i) =
                (if i = obj \<and> fl then (0, 0, 0) else obj_location (store sc i))) \<and>
         (\<forall>i. obj_select (store snap i) \<longrightarrow> i = obj \<or> obj_select (store sc i)))"

lemmas model_defs = batch_export_meshes_def basedir_of_def selected_objects_def
  select_all_DESELECT_def export_object_def select_set_def set_location_def
  export_by_file_type_def bpy_ops_export_def execute_def export_directory_def Let_def

lemmas example_defs = example_world_def example_scene_def MeshA_def LightB_def
  example_host_def example_props_def posix_join_def posix_dirname_def example_clean_name_def

section \<open>What the exporter calls leave unchanged, and which errors arise\<close>

lemma export_by_file_type_scn: "scn (snd (export_by_file_type h ft fn w)) = scn w"
  by (simp add: export_by_file_type_def bpy_ops_export_def Let_def)

lemma export_by_file_type_reports: "reports (snd (export_by_file_type h ft fn w)) = reports w"
  by (simp add: export_by_file_type_def bpy_ops_export_def Let_def)

lemma export_by_file_type_error:
  "export_by_file_type h ft fn w = (Inl e, w') \<Longrightarrow> e = RuntimeError ''exporter failed''"
  by (auto simp add: export_by_file_type_def bpy_ops_export_def Let_def split: if_splits)

lemma export_object_error:
  "export_object h b fl ft pre obj w = (Inl e, w') \<Longrightarrow> e = RuntimeError ''exporter failed''"
  by (auto simp add: export_object_def Let_def split: if_splits prod.splits sum.splits
      dest: export_by_file_type_error)

lemma export_loop_error:
  "export_loop h b fl ft pre objs w = (Inl e, w') \<Longrightarrow> e = RuntimeError ''exporter failed''"
proof (induction objs arbitrary: w)
  case Nil
  then show ?case by simp
next
  case (Cons obj rest)
  then show ?case
    by (auto split: prod.splits sum.splits dest: export_object_error)
qed

lemma batch_export_meshes_error:
  "batch_export_meshes h d fl ft pre w = (Inl e, w') \<Longrightarrow>
   e = RuntimeError ''exporter failed'' \<or>
   (basedir_of h d = [] \<and> e = Exception ''Blend file is not saved'')"
  by (auto simp add: batch_export_meshes_def Let_def split: if_splits prod.splits sum.splits
      dest: export_loop_error)

section \<open>The operator: the directory and its validation\<close>

text \<open>
  C2: when the chosen path has a trailing file name, the operator strips it to obtain the
  export directory; for \<^verbatim>\<open>/out/ignored_filename.fbx\<close> the directory is
  \<^verbatim>\<open>/out\<close>. The code cuts the path at its last backslash only: this path has
  none, it is kept whole, it is not a directory, and the operator warns and exports
  nothing.
\<close>

theorem export_directory_keeps_posix_path:
  "export_directory ''/out/ignored_filename.fbx'' = ''/out/ignored_filename.fbx'' \<and>
   export_directory ''/out/ignored_filename.fbx'' \<noteq> ''/out'' \<and>
   export_directory (''C:'' @ [CHR 0x5C] @ ''out'' @ [CHR 0x5C] @ ''ignored_filename.fbx'') =
     ''C:'' @ [CHR 0x5C] @ ''out'' \<and>
   execute example_host (example_props ''/out/ignored_filename.fbx'' ''FBX'') example_world =
     (Inr {''FINISHED''},
      example_world\<lparr>reports := [({''WARNING''}, ''Please select a valid path'')]\<rparr>)"
  by (simp add: export_directory_def execute_def Let_def example_defs)

text \<open>
  C6: if the resolved path is not an existing directory, the operator reports a warning,
  exports nothing (the scene and the exporter calls are as before: only the report is
  added) and finishes normally, without an exception.
\<close>

theorem invalid_directory_warns:
  assumes "\<not> os_path_isdir h (export_directory (prop_filepath self))"
  shows "execute h self w =
    (Inr {''FINISHED''},
     w\<lparr>reports := reports w @ [({''WARNING''}, ''Please select a valid path'')]\<rparr>)"
  using assms by (simp add: execute_def Let_def)

theorem invalid_directory_warns_witness:
  "\<not> os_path_isdir example_host
       (export_directory (prop_filepath (example_props ''/nowhere'' ''OBJ''))) \<and>
   execute example_host (example_props ''/nowhere'' ''OBJ'') example_world =
    (Inr {''FINISHED''},
     example_world\<lparr>reports := [({''WARNING''}, ''Please select a valid path'')]\<rparr>) \<and>
   scn (snd (execute example_host (example_props ''/nowhere'' ''OBJ'') example_world)) =
     example_scene \<and>
   calls (snd (execute example_host (example_props ''/nowhere'' ''OBJ'') example_world)) = []"
proof -
  have h: "\<not> os_path_isdir example_host
              (export_directory (prop_filepath (example_props ''/nowhere'' ''OBJ'')))"
    by (simp add: export_directory_def Let_def example_defs)
  show ?thesis
    using h invalid_directory_warns [OF h, of example_world]
    by (simp add: example_world_def)
qed

text \<open>
  C7: if the routine is given an empty directory and the directory of the blend file is
  empty as well, it raises "Blend file is not saved" and the world is as it was: no
  selection change, no location change, no exporter call.
\<close>

theorem no_directory_aborts:
  assumes "directory = []" and "os_path_dirname h (bpy_data_filepath h) = []"
  shows "batch_export_meshes h directory freeze_locations file_type mesh_name_prefix w =
    (Inl (Exception ''Blend file is not saved''), w)"
  using assms by (simp add: batch_export_meshes_def basedir_of_def)

theorem no_directory_aborts_witness:
  "os_path_dirname example_host (bpy_data_filepath example_host) = [] \<and>
   batch_export_meshes example_host [] True ''FBX'' ''SM_'' example_world =
    (Inl (Exception ''Blend file is not saved''), example_world)"
proof -
  have h: "os_path_dirname example_host (bpy_data_filepath example_host) = []"
    by (simp add: example_defs)
  show ?thesis
    using h no_directory_aborts [OF refl h, of True "''FBX''" "''SM_''" example_world]
    by simp
qed

text \<open>
  C10: through the operator, the routine is reached only with a directory that
  \<^verbatim>\<open>os.path.isdir\<close> accepted. As \<^verbatim>\<open>os.path.isdir\<close> rejects the empty
  path, that directory is not empty, the routine exports to it and not to the directory
  of the blend file, and the operator never raises "Blend file is not saved".
\<close>

theorem execute_never_unsaved:
  assumes "\<not> os_path_isdir h []"
  shows "(os_path_isdir h (export_directory (prop_filepath self)) \<longrightarrow>
            export_directory (prop_filepath self) \<noteq> [] \<and>
            basedir_of h (export_directory (prop_filepath self)) =
              export_directory (prop_filepath self)) \<and>
         fst (execute h self w) \<noteq> Inl (Exception ''Blend file is not saved'')"
proof -
  let ?d = "export_directory (prop_filepath self)"
  have a: "os_path_isdir h ?d \<longrightarrow> ?d \<noteq> [] \<and> basedir_of h ?d = ?d"
    using assms by (auto simp add: basedir_of_def)
  have b: "fst (execute h self w) \<noteq> Inl (Exception ''Blend file is not saved'')"
  proof (cases "os_path_isdir h ?d")
    case False
    then show ?thesis by (simp add: execute_def Let_def)
  next
    case True
    with a have nonempty: "basedir_of h ?d \<noteq> []" by simp
    obtain r w' where run: "batch_export_meshes h ?d (prop_freeze_locations self)
        (prop_file_type self) (prop_mesh_name_prefix self) w = (r, w')"
      by (cases "batch_export_meshes h ?d (prop_freeze_locations self)
        (prop_file_type self) (prop_mesh_name_prefix self) w") blast
    show ?thesis
    proof (cases r)
      case (Inl e)
      with run nonempty have "e = RuntimeError ''exporter failed''"
        using batch_export_meshes_error by blast
      with run Inl True show ?thesis by (simp add: execute_def Let_def)
    next
      case (Inr u)
      with run True show ?thesis by (simp add: execute_def Let_def)
    qed
  qed
  from a b show ?thesis by blast
qed

theorem execute_never_unsaved_witness:
  "\<not> os_path_isdir example_host [] \<and>
   os_path_isdir example_host
     (export_directory (prop_filepath (example_props ''/out'' ''FBX''))) \<and>
   export_directory (prop_filepath (example_props ''/out'' ''FBX'')) = ''/out'' \<and>
   basedir_of example_host ''/out'' = ''/out'' \<and>
   fst (execute example_host (example_props ''/out'' ''FBX'') example_world) \<noteq>
     Inl (Exception ''Blend file is not saved'')"
proof -
  have h: "\<not> os_path_isdir example_host []"
    by (simp add: example_defs)
  have d: "export_directory (prop_filepath (example_props ''/out'' ''FBX'')) = ''/out''"
    by (simp add: export_directory_def Let_def example_defs)
  have i: "os_path_isdir example_host ''/out''"
    by (simp add: example_defs)
  show ?thesis
    using h i execute_never_unsaved [OF h, of "example_props ''/out'' ''FBX''" example_world]
    by (simp add: d)
qed

section \<open>The loop and the routine\<close>

lemma same_data_refl: "same_data sc sc"
  by (simp add: same_data_def)

lemma same_data_trans: "same_data a b \<Longrightarrow> same_data b c \<Longrightarrow> same_data a c"
  by (simp add: same_data_def)

lemma same_data_exportable: "same_data sc sc' \<Longrightarrow> exportable sc' i = exportable sc i"
  by (simp add: same_data_def exportable_def)

lemma export_by_file_type_scnD: "export_by_file_type h ft fn w = (r, w') \<Longrightarrow> scn w' = scn w"
  using export_by_file_type_scn [of h ft fn w] by simp

lemma export_by_file_type_reportsD:
  "export_by_file_type h ft fn w = (r, w') \<Longrightarrow> reports w' = reports w"
  using export_by_file_type_reports [of h ft fn w] by simp

lemma export_by_file_type_calls:
  "calls (snd (export_by_file_type h ft fn w)) = calls w @
     (if ft = ''FBX'' then [(\<lparr>call_op = export_scene_fbx, call_filepath = fn @ ''.fbx'',
          call_use_selection = True, call_export_format = None\<rparr>, scn w)]
      else if ft = ''OBJ'' then [(\<lparr>call_op = export_scene_obj, call_filepath = fn @ ''.obj'',
          call_use_selection = True, call_export_format = None\<rparr>, scn w)]
      else if ft = ''GLTF'' then [(\<lparr>call_op = export_scene_gltf, call_filepath = fn @ ''.gltf'',
          call_use_selection = True, call_export_format = Some ''GLTF_SEPARATE''\<rparr>, scn w)]
      else if ft = ''DAE'' then [(\<lparr>call_op = export_scene_fbx, call_filepath = fn @ ''.dae'',
          call_use_selection = True, call_export_format = None\<rparr>, scn w)]
      else [])"
  by (simp add: export_by_file_type_def bpy_ops_export_def Let_def)

lemma export_object_skip:
  "\<not> exportable (scn w) obj \<Longrightarrow> export_object h b fl ft pre obj w = (Inr (), w)"
  by (simp add: export_object_def exportable_def)

lemma export_object_unfold:
  "exportable (scn w) obj \<Longrightarrow>
   export_object h b fl ft pre obj w =
     (case export_by_file_type h ft
        (os_path_join h b (pre @ bpy_path_clean_name h (obj_name (store (scn w) obj))))
        (w\<lparr>scn := scene_at_call fl obj (scn w)\<rparr>) of
        (Inl e, w4) \<Rightarrow> (Inl e, w4)
      | (Inr u, w4) \<Rightarrow>
          (Inr (), w4\<lparr>scn := set_location obj (obj_location (store (scn w) obj))
                                (select_set obj False (scn w4))\<rparr>))"
proof -
  assume "exportable (scn w) obj"
  then have ne: "\<not> (obj_type (store (scn w) obj) \<noteq> ''MESH'' \<and>
      obj_type (store (scn w) obj) \<noteq> ''ARMATURE'')"
    by (auto simp add: exportable_def)
  show ?thesis
    unfolding export_object_def
    by (simp add: ne scene_at_call_def Let_def select_set_def set_location_def
        cong: prod.case_cong sum.case_cong)
qed

lemma restore_scene_at_call:
  "set_location obj (obj_location (store sc obj)) (select_set obj False (scene_at_call fl obj sc)) =
   sc\<lparr>store := (store sc)(obj := (store sc obj)\<lparr>obj_select := False\<rparr>), active := Some obj\<rparr>"
  by (simp add: scene_at_call_def select_set_def set_location_def)

lemma export_object_Inr_scn:
  assumes "export_object h b fl ft pre obj w = (Inr u, w')" and "exportable (scn w) obj"
  shows "scn w' = (scn w)\<lparr>store := (store (scn w))(obj := (store (scn w) obj)\<lparr>obj_select := False\<rparr>),
                          active := Some obj\<rparr>"
  using assms
  by (auto simp add: export_object_unfold restore_scene_at_call
      split: prod.splits sum.splits dest!: export_by_file_type_scnD)

lemma export_object_Inr_reports:
  assumes "export_object h b fl ft pre obj w = (r, w')"
  shows "reports w' = reports w"
  using assms
  by (cases "exportable (scn w) obj")
     (auto simp add: export_object_unfold export_object_skip
      split: prod.splits sum.splits dest!: export_by_file_type_reportsD)

lemma export_object_calls_eq:
  assumes "exportable (scn w) obj"
  shows "calls (snd (export_object h b fl ft pre obj w)) =
     calls (snd (export_by_file_type h ft
        (os_path_join h b (pre @ bpy_path_clean_name h (obj_name (store (scn w) obj))))
        (w\<lparr>scn := scene_at_call fl obj (scn w)\<rparr>)))"
  using assms by (simp add: export_object_unfold split: prod.splits sum.splits)

lemma scene_at_call_simps:
  "objects (scene_at_call fl obj sc) = objects sc"
  "active (scene_at_call fl obj sc) = Some obj"
  "obj_select (store (scene_at_call fl obj sc) i) = (i = obj \<or> obj_select (store sc i))"
  "obj_location (store (scene_at_call fl obj sc) i) =
     (if i = obj \<and> fl then (0, 0, 0) else obj_location (store sc i))"
  "obj_name (store (scene_at_call fl obj sc) i) = obj_name (store sc i)"
  "obj_type (store (scene_at_call fl obj sc) i) = obj_type (store sc i)"
  by (simp_all add: scene_at_call_def select_set_def set_location_def)

lemma export_object_calls_any:
  assumes "export_object h b fl ft pre obj w = (r, w')"
  shows "\<exists>new. calls w' = calls w @ new \<and> (\<forall>x\<in>set new. call_for h b fl ft pre (scn w) obj x)"
proof (cases "exportable (scn w) obj")
  case False
  with assms show ?thesis by (simp add: export_object_skip)
next
  case True
  have "calls w' = calls (snd (export_object h b fl ft pre obj w))"
    using assms by simp
  then show ?thesis
    using True
    by (simp add: export_object_calls_eq export_by_file_type_calls call_for_def
        scene_at_call_simps)
qed

lemma export_object_calls_valid:
  assumes "export_object h b fl ft pre obj w = (r, w')"
    and "exportable (scn w) obj"
    and "ft = ''FBX'' \<or> ft = ''OBJ'' \<or> ft = ''GLTF'' \<or> ft = ''DAE''"
  shows "\<exists>x. calls w' = calls w @ [x] \<and> call_for h b fl ft pre (scn w) obj x"
proof -
  have "calls w' = calls (snd (export_object h b fl ft pre obj w))"
    using assms by simp
  then show ?thesis
    using assms(2,3)
    by (auto simp add: export_object_calls_eq export_by_file_type_calls call_for_def
        scene_at_call_simps)
qed

lemma export_object_Inr_same_data:
  assumes "export_object h b fl ft pre obj w = (Inr u, w')"
  shows "same_data (scn w) (scn w')"
proof (cases "exportable (scn w) obj")
  case False
  with assms show ?thesis by (simp add: export_object_skip same_data_refl)
next
  case True
  from export_object_Inr_scn [OF assms True] show ?thesis
    by (simp add: same_data_def)
qed

lemma export_object_Inr_select:
  assumes "export_object h b fl ft pre obj w = (Inr u, w')"
  shows "obj_select (store (scn w') i) =
    (obj_select (store (scn w) i) \<and> \<not> (i = obj \<and> exportable (scn w) obj))"
proof (cases "exportable (scn w) obj")
  case False
  with assms show ?thesis by (simp add: export_object_skip)
next
  case True
  from export_object_Inr_scn [OF assms True] True show ?thesis
    by simp
qed

lemma call_for_same_data:
  assumes "same_data sc sc'" and "call_for h b fl ft pre sc' obj x"
    and "\<And>i. obj_select (store sc' i) \<Longrightarrow> obj_select (store sc i)"
  shows "call_for h b fl ft pre sc obj x"
  using assms by (auto simp add: call_for_def same_data_def exportable_def Let_def)

lemma export_object_Inl_scn:
  assumes "export_object h b fl ft pre obj w = (Inl e, w')"
  shows "scn w' = scene_at_call fl obj (scn w)"
proof (cases "exportable (scn w) obj")
  case False
  with assms show ?thesis by (simp add: export_object_skip)
next
  case True
  with assms show ?thesis
    by (auto simp add: export_object_unfold split: prod.splits sum.splits
        dest!: export_by_file_type_scnD)
qed

lemma export_loop_Inr:
  "export_loop h b fl ft pre objs w = (Inr u, w') \<Longrightarrow>
   same_data (scn w) (scn w') \<and> reports w' = reports w \<and>
   (\<forall>i. obj_select (store (scn w') i) =
      (obj_select (store (scn w) i) \<and> \<not> (i \<in> set objs \<and> exportable (scn w) i)))"
proof (induction objs arbitrary: w)
  case Nil
  then show ?case by (simp add: same_data_refl)
next
  case (Cons obj rest)
  obtain r1 w1 where step: "export_object h b fl ft pre obj w = (r1, w1)"
    by (meson surj_pair)
  with Cons.prems obtain u1 where r1: "r1 = Inr u1"
    by (cases r1) auto
  from step r1 Cons.prems have rest: "export_loop h b fl ft pre rest w1 = (Inr u, w')"
    by simp
  note ih = Cons.IH [OF rest]
  from step r1 have sd: "same_data (scn w) (scn w1)"
    by (simp add: export_object_Inr_same_data)
  from step r1 have sel: "\<And>i. obj_select (store (scn w1) i) =
      (obj_select (store (scn w) i) \<and> \<not> (i = obj \<and> exportable (scn w) obj))"
    by (simp add: export_object_Inr_select)
  from step have rep: "reports w1 = reports w"
    by (rule export_object_Inr_reports)
  have ex: "\<And>i. exportable (scn w1) i = exportable (scn w) i"
    using sd by (rule same_data_exportable)
  show ?case
    using ih sd rep by (auto simp add: sel ex intro: same_data_trans)
qed

lemma export_loop_calls:
  "export_loop h b fl ft pre objs w = (r, w') \<Longrightarrow>
   \<exists>new. calls w' = calls w @ new \<and>
     (\<forall>x\<in>set new. \<exists>obj\<in>set objs. call_for h b fl ft pre (scn w) obj x)"
proof (induction objs arbitrary: w)
  case Nil
  then show ?case by simp
next
  case (Cons obj rest)
  obtain r1 w1 where step: "export_object h b fl ft pre obj w = (r1, w1)"
    by (meson surj_pair)
  from export_object_calls_any [OF step] obtain new1 where
    new1: "calls w1 = calls w @ new1" "\<forall>x\<in>set new1. call_for h b fl ft pre (scn w) obj x"
    by blast
  show ?case
  proof (cases r1)
    case (Inl e)
    with step Cons.prems have "w' = w1" by simp
    with new1 show ?thesis by auto
  next
    case (Inr u1)
    with step Cons.prems have rest: "export_loop h b fl ft pre rest w1 = (r, w')"
      by simp
    from Cons.IH [OF rest] obtain new2 where
      new2: "calls w' = calls w1 @ new2"
        "\<forall>x\<in>set new2. \<exists>o2\<in>set rest. call_for h b fl ft pre (scn w1) o2 x"
      by blast
    from step Inr have sd: "same_data (scn w) (scn w1)"
      by (simp add: export_object_Inr_same_data)
    from step Inr have sel: "\<And>i. obj_select (store (scn w1) i) \<Longrightarrow> obj_select (store (scn w) i)"
      by (simp add: export_object_Inr_select)
    have "\<forall>x\<in>set new2. \<exists>o2\<in>set rest. call_for h b fl ft pre (scn w) o2 x"
      using new2(2) call_for_same_data [OF sd _ sel] by blast
    with new1 new2(1) show ?thesis by auto
  qed
qed

lemma export_loop_calls_exact:
  assumes "ft = ''FBX'' \<or> ft = ''OBJ'' \<or> ft = ''GLTF'' \<or> ft = ''DAE''"
  shows "export_loop h b fl ft pre objs w = (r, w') \<Longrightarrow>
   \<exists>new. calls w' = calls w @ new \<and>
     list_all2 (\<lambda>obj x. call_for h b fl ft pre (scn w) obj x)
       (take (length new) (filter (exportable (scn w)) objs)) new \<and>
     (\<forall>u. r = Inr u \<longrightarrow> length new = length (filter (exportable (scn w)) objs))"
proof (induction objs arbitrary: w)
  case Nil
  then show ?case by simp
next
  case (Cons obj rest)
  show ?case
  proof (cases "exportable (scn w) obj")
    case False
    with Cons.prems have "export_loop h b fl ft pre rest w = (r, w')"
      by (simp add: export_object_skip)
    from Cons.IH [OF this] False show ?thesis by simp
  next
    case True
    obtain r1 w1 where step: "export_object h b fl ft pre obj w = (r1, w1)"
      by (meson surj_pair)
    from export_object_calls_valid [OF step True assms] obtain x where
      x: "calls w1 = calls w @ [x]" "call_for h b fl ft pre (scn w) obj x"
      by blast
    show ?thesis
    proof (cases r1)
      case (Inl e)
      with step Cons.prems have "w' = w1" "r = Inl e" by simp_all
      with x True show ?thesis by simp
    next
      case (Inr u1)
      with step Cons.prems have rest: "export_loop h b fl ft pre rest w1 = (r, w')"
        by simp
      from step Inr have sd: "same_data (scn w) (scn w1)"
        by (simp add: export_object_Inr_same_data)
      from step Inr have sel: "\<And>i. obj_select (store (scn w1) i) \<Longrightarrow> obj_select (store (scn w) i)"
        by (simp add: export_object_Inr_select)
      have ex: "exportable (scn w1) = exportable (scn w)"
        using same_data_exportable [OF sd] by (simp add: fun_eq_iff)
      from Cons.IH [OF rest] obtain new2 where
        new2: "calls w' = calls w1 @ new2"
          "list_all2 (\<lambda>obj x. call_for h b fl ft pre (scn w1) obj x)
             (take (length new2) (filter (exportable (scn w)) rest)) new2"
          "\<forall>u. r = Inr u \<longrightarrow> length new2 = length (filter (exportable (scn w)) rest)"
        by (auto simp add: ex)
      have "list_all2 (\<lambda>obj x. call_for h b fl ft pre (scn w) obj x)
             (take (length new2) (filter (exportable (scn w)) rest)) new2"
        using new2(2) call_for_same_data [OF sd _ sel]
        by (rule list_all2_mono) blast
      with x new2 True have "calls w' = calls w @ (x # new2) \<and>
        list_all2 (\<lambda>obj x. call_for h b fl ft pre (scn w) obj x)
          (take (length (x # new2)) (filter (exportable (scn w)) (obj # rest))) (x # new2) \<and>
        (\<forall>u. r = Inr u \<longrightarrow>
           length (x # new2) = length (filter (exportable (scn w)) (obj # rest)))"
        by simp
      then show ?thesis by blast
    qed
  qed
qed

lemma export_loop_skip_all:
  "\<forall>obj\<in>set objs. \<not> exportable (scn w) obj \<Longrightarrow>
   export_loop h b fl ft pre objs w = (Inr (), w)"
  by (induction objs) (simp_all add: export_object_skip)

lemma export_loop_unfrozen_same_data:
  "export_loop h b False ft pre objs w = (r, w') \<Longrightarrow> same_data (scn w) (scn w')"
proof (induction objs arbitrary: w)
  case Nil
  then show ?case by (simp add: same_data_refl)
next
  case (Cons obj rest)
  obtain r1 w1 where step: "export_object h b False ft pre obj w = (r1, w1)"
    by (meson surj_pair)
  show ?case
  proof (cases r1)
    case (Inl e)
    with step Cons.prems have "w' = w1" by simp
    moreover from step Inl have "scn w1 = scene_at_call False obj (scn w)"
      by (simp add: export_object_Inl_scn)
    ultimately show ?thesis
      by (simp add: same_data_def scene_at_call_simps)
  next
    case (Inr u1)
    with step Cons.prems have rest: "export_loop h b False ft pre rest w1 = (r, w')"
      by simp
    from step Inr have "same_data (scn w) (scn w1)"
      by (simp add: export_object_Inr_same_data)
    with Cons.IH [OF rest] show ?thesis
      by (rule same_data_trans [rotated])
  qed
qed

lemma select_all_DESELECT_simps:
  "objects (select_all_DESELECT sc) = objects sc"
  "active (select_all_DESELECT sc) = active sc"
  "obj_select (store (select_all_DESELECT sc) i) =
     (obj_select (store sc i) \<and> i \<notin> set (objects sc))"
  "obj_location (store (select_all_DESELECT sc) i) = obj_location (store sc i)"
  "obj_name (store (select_all_DESELECT sc) i) = obj_name (store sc i)"
  "obj_type (store (select_all_DESELECT sc) i) = obj_type (store sc i)"
  by (simp_all add: select_all_DESELECT_def)

lemma same_data_select_all_DESELECT: "same_data sc (select_all_DESELECT sc)"
  by (simp add: same_data_def select_all_DESELECT_simps)

lemma fold_select_set:
  "fold (\<lambda>obj. select_set obj True) xs sc =
   sc\<lparr>store := (\<lambda>i. if i \<in> set xs then (store sc i)\<lparr>obj_select := True\<rparr> else store sc i)\<rparr>"
proof (induction xs arbitrary: sc)
  case Nil
  then show ?case by simp
next
  case (Cons x xs)
  show ?case
    by (simp add: Cons.IH) (auto simp add: select_set_def fun_eq_iff)
qed

lemma set_selected_objects:
  "i \<in> set (selected_objects sc) \<longleftrightarrow> i \<in> set (objects sc) \<and> obj_select (store sc i)"
  by (auto simp add: selected_objects_def)

lemma batch_export_meshes_run:
  assumes "batch_export_meshes h d fl ft pre w = (r, w')" and "basedir_of h d \<noteq> []"
  defines "w2 \<equiv> snd (export_loop h (basedir_of h d) fl ft pre (selected_objects (scn w))
       (w\<lparr>scn := select_all_DESELECT (scn w)\<rparr>))"
  shows "export_loop h (basedir_of h d) fl ft pre (selected_objects (scn w))
       (w\<lparr>scn := select_all_DESELECT (scn w)\<rparr>) = (r, w2)"
    and "calls w' = calls w2"
    and "reports w' = reports w2"
    and "\<And>e. r = Inl e \<Longrightarrow> w' = w2"
    and "\<And>u. r = Inr u \<Longrightarrow> scn w' =
       fold (\<lambda>obj. select_set obj True) (selected_objects (scn w))
         ((scn w2)\<lparr>active := active (scn w)\<rparr>)"
proof -
  obtain r2 v2 where loop: "export_loop h (basedir_of h d) fl ft pre (selected_objects (scn w))
       (w\<lparr>scn := select_all_DESELECT (scn w)\<rparr>) = (r2, v2)"
    by (meson surj_pair)
  then have v2: "w2 = v2" by (simp add: w2_def)
  have "r = r2 \<and> calls w' = calls v2 \<and> reports w' = reports v2 \<and>
    (\<forall>e. r = Inl e \<longrightarrow> w' = v2) \<and>
    (\<forall>u. r = Inr u \<longrightarrow> scn w' =
       fold (\<lambda>obj. select_set obj True) (selected_objects (scn w))
         ((scn v2)\<lparr>active := active (scn w)\<rparr>))"
  proof (cases r2)
    case (Inl e)
    with assms(1,2) loop have "r = r2" "w' = v2"
      by (simp_all add: batch_export_meshes_def Let_def)
    with Inl show ?thesis by simp
  next
    case (Inr u)
    with assms(1,2) loop have "r = r2"
      "w' = v2\<lparr>scn := fold (\<lambda>obj. select_set obj True) (selected_objects (scn w))
         ((scn v2)\<lparr>active := active (scn w)\<rparr>)\<rparr>"
      by (simp_all add: batch_export_meshes_def Let_def)
    with Inr show ?thesis by simp
  qed
  with loop v2 show
    "export_loop h (basedir_of h d) fl ft pre (selected_objects (scn w))
       (w\<lparr>scn := select_all_DESELECT (scn w)\<rparr>) = (r, w2)"
    "calls w' = calls w2"
    "reports w' = reports w2"
    "\<And>e. r = Inl e \<Longrightarrow> w' = w2"
    "\<And>u. r = Inr u \<Longrightarrow> scn w' =
       fold (\<lambda>obj. select_set obj True) (selected_objects (scn w))
         ((scn w2)\<lparr>active := active (scn w)\<rparr>)"
    by simp_all
qed

lemma batch_export_meshes_calls:
  assumes "batch_export_meshes h d fl ft pre w = (r, w')"
  shows "\<exists>new. calls w' = calls w @ new \<and>
     (\<forall>x\<in>set new. \<exists>obj\<in>set (selected_objects (scn w)).
        call_for h (basedir_of h d) fl ft pre (scn w) obj x)"
proof (cases "basedir_of h d = []")
  case True
  with assms have "w' = w" by (simp add: batch_export_meshes_def)
  then show ?thesis by simp
next
  case False
  define w2 where "w2 = snd (export_loop h (basedir_of h d) fl ft pre
    (selected_objects (scn w)) (w\<lparr>scn := select_all_DESELECT (scn w)\<rparr>))"
  note run = batch_export_meshes_run [OF assms False, folded w2_def]
  note loop = run(1) and c = run(2)
  from export_loop_calls [OF loop] obtain new where
    new: "calls w2 = calls w @ new"
      "\<forall>x\<in>set new. \<exists>obj\<in>set (selected_objects (scn w)).
         call_for h (basedir_of h d) fl ft pre (select_all_DESELECT (scn w)) obj x"
    by auto
  have "\<forall>x\<in>set new. \<exists>obj\<in>set (selected_objects (scn w)).
         call_for h (basedir_of h d) fl ft pre (scn w) obj x"
    using new(2) call_for_same_data [OF same_data_select_all_DESELECT]
    by (fastforce simp add: select_all_DESELECT_simps)
  with new(1) c show ?thesis by simp
qed

lemma batch_export_meshes_calls_exact:
  assumes "batch_export_meshes h d fl ft pre w = (r, w')"
    and "ft = ''FBX'' \<or> ft = ''OBJ'' \<or> ft = ''GLTF'' \<or> ft = ''DAE''"
    and "basedir_of h d \<noteq> []"
  shows "\<exists>new. calls w' = calls w @ new \<and>
     list_all2 (\<lambda>obj x. call_for h (basedir_of h d) fl ft pre (scn w) obj x)
       (take (length new) (filter (exportable (scn w)) (selected_objects (scn w)))) new \<and>
     (\<forall>u. r = Inr u \<longrightarrow>
        length new = length (filter (exportable (scn w)) (selected_objects (scn w))))"
proof -
  define w2 where "w2 = snd (export_loop h (basedir_of h d) fl ft pre
    (selected_objects (scn w)) (w\<lparr>scn := select_all_DESELECT (scn w)\<rparr>))"
  note run = batch_export_meshes_run [OF assms(1,3), folded w2_def]
  note loop = run(1) and c = run(2)
  have ex: "exportable (select_all_DESELECT (scn w)) = exportable (scn w)"
    using same_data_exportable [OF same_data_select_all_DESELECT] by (simp add: fun_eq_iff)
  from export_loop_calls_exact [OF assms(2) loop] obtain new where
    new: "calls w2 = calls w @ new"
      "list_all2 (\<lambda>obj x. call_for h (basedir_of h d) fl ft pre (select_all_DESELECT (scn w)) obj x)
         (take (length new) (filter (exportable (scn w)) (selected_objects (scn w)))) new"
      "\<forall>u. r = Inr u \<longrightarrow>
        length new = length (filter (exportable (scn w)) (selected_objects (scn w)))"
    by (auto simp add: ex)
  have "list_all2 (\<lambda>obj x. call_for h (basedir_of h d) fl ft pre (scn w) obj x)
         (take (length new) (filter (exportable (scn w)) (selected_objects (scn w)))) new"
    using new(2)
  proof (rule list_all2_mono)
    fix obj x
    assume "call_for h (basedir_of h d) fl ft pre (select_all_DESELECT (scn w)) obj x"
    then show "call_for h (basedir_of h d) fl ft pre (scn w) obj x"
      by (rule call_for_same_data [OF same_data_select_all_DESELECT])
         (simp add: select_all_DESELECT_simps)
  qed
  with new(1,3) c show ?thesis by simp
qed

lemma list_all2_map_eq:
  "list_all2 (\<lambda>a b. f a = g b) xs ys \<Longrightarrow> map f xs = map g ys"
  by (induction xs ys rule: list_all2_induct) simp_all

lemma same_data_objects: "same_data a b \<Longrightarrow> objects b = objects a"
  by (simp add: same_data_def)

lemma fold_select_set_simps:
  "objects (fold (\<lambda>obj. select_set obj True) xs sc) = objects sc"
  "active (fold (\<lambda>obj. select_set obj True) xs sc) = active sc"
  "obj_select (store (fold (\<lambda>obj. select_set obj True) xs sc) i) =
     (i \<in> set xs \<or> obj_select (store sc i))"
  "obj_location (store (fold (\<lambda>obj. select_set obj True) xs sc) i) =
     obj_location (store sc i)"
  by (simp_all add: fold_select_set)

section \<open>The example run\<close>

lemma example_run_fst:
  "fst (example_run True ''FBX'') = Inr ()"
  "fst (example_run False ''FBX'') = Inr ()"
  "fst (example_run True ''DAE'') = Inr ()"
  by (simp_all add: example_run_def model_defs example_defs)

lemma example_run_pair:
  "fst (example_run fl ft) = Inr () \<Longrightarrow>
   batch_export_meshes example_host ''/out'' fl ft ''SM_'' example_world =
     (Inr (), snd (example_run fl ft))"
  by (simp add: prod_eq_iff example_run_def)

lemma example_selected: "selected_objects (scn example_world) = [0, 1]"
  by (simp add: selected_objects_def example_defs)

lemma example_exportable:
  "filter (exportable (scn example_world)) (selected_objects (scn example_world)) = [0]"
  by (simp add: selected_objects_def exportable_def example_defs)

section \<open>Selection, active object and locations\<close>

text \<open>
  C1: when the routine runs to completion, the selected objects and the active object are
  afterwards what they were before, whatever the format and the freeze flag, and also when
  some selected objects are skipped for their type. The selected objects are compared as
  the list \<^verbatim>\<open>bpy.context.selected_objects\<close>, and so as a set.
\<close>

theorem selection_restored:
  assumes "batch_export_meshes h directory freeze_locations file_type mesh_name_prefix w =
    (Inr u, w')"
  shows "selected_objects (scn w') = selected_objects (scn w) \<and>
         set (selected_objects (scn w')) = set (selected_objects (scn w)) \<and>
         active (scn w') = active (scn w)"
proof -
  have nonempty: "basedir_of h directory \<noteq> []"
  proof
    assume "basedir_of h directory = []"
    then have "batch_export_meshes h directory freeze_locations file_type mesh_name_prefix w =
      (Inl (Exception ''Blend file is not saved''), w)"
      by (simp add: batch_export_meshes_def)
    with assms show False by simp
  qed
  define w2 where "w2 = snd (export_loop h (basedir_of h directory) freeze_locations
    file_type mesh_name_prefix (selected_objects (scn w))
    (w\<lparr>scn := select_all_DESELECT (scn w)\<rparr>))"
  note run = batch_export_meshes_run [OF assms nonempty, folded w2_def]
  note loop = run(1) and final = run(5) [OF refl]
  from export_loop_Inr [OF loop] have
    sd: "same_data (select_all_DESELECT (scn w)) (scn w2)" and
    sl: "\<And>i. obj_select (store (scn w2) i) \<Longrightarrow> obj_select (store (select_all_DESELECT (scn w)) i)"
    by simp_all
  have objs2: "objects (scn w2) = objects (scn w)"
    using same_data_objects [OF sd] by (simp add: select_all_DESELECT_simps)
  have sel2: "\<And>i. i \<in> set (objects (scn w)) \<Longrightarrow> \<not> obj_select (store (scn w2) i)"
    using sl by (auto simp add: select_all_DESELECT_simps)
  have objs: "objects (scn w') = objects (scn w)"
    by (simp add: final fold_select_set_simps objs2)
  have act: "active (scn w') = active (scn w)"
    by (simp add: final fold_select_set_simps)
  have sel: "\<And>i. i \<in> set (objects (scn w)) \<Longrightarrow>
      obj_select (store (scn w') i) = obj_select (store (scn w) i)"
    using sel2 by (auto simp add: final fold_select_set_simps set_selected_objects)
  have "selected_objects (scn w') = selected_objects (scn w)"
    unfolding selected_objects_def objs
    by (rule filter_cong) (simp_all add: sel)
  with act show ?thesis by simp
qed

theorem selection_restored_witness:
  "fst (example_run True ''FBX'') = Inr () \<and>
   selected_objects (scn (snd (example_run True ''FBX''))) = [0, 1] \<and>
   set (selected_objects (scn (snd (example_run True ''FBX'')))) = {0, 1} \<and>
   active (scn (snd (example_run True ''FBX''))) = Some 1"
  using selection_restored [OF example_run_pair [OF example_run_fst(1)]]
  by (simp add: example_run_fst example_selected) (simp add: example_defs)

text \<open>
  C9: when no selected object is a mesh or an armature, the routine calls no exporter
  (so it writes no file), no object raises an error, and the world is afterwards exactly
  as before: selection, active object, locations. The only error possible is the one of
  an undetermined directory, raised before the objects are looked at.
\<close>

theorem unexportable_selection_untouched:
  assumes "\<forall>obj\<in>set (selected_objects (scn w)).
     obj_type (store (scn w) obj) \<noteq> ''MESH'' \<and> obj_type (store (scn w) obj) \<noteq> ''ARMATURE''"
  shows "batch_export_meshes h directory freeze_locations file_type mesh_name_prefix w =
     (if basedir_of h directory = [] then (Inl (Exception ''Blend file is not saved''), w)
      else (Inr (), w))"
proof (cases "basedir_of h directory = []")
  case True
  then show ?thesis by (simp add: batch_export_meshes_def)
next
  case False
  have skip: "\<forall>obj\<in>set (selected_objects (scn w)).
      \<not> exportable (scn (w\<lparr>scn := select_all_DESELECT (scn w)\<rparr>)) obj"
    using assms by (simp add: exportable_def select_all_DESELECT_simps)
  have "fold (\<lambda>obj. select_set obj True) (selected_objects (scn w))
          ((select_all_DESELECT (scn w))\<lparr>active := active (scn w)\<rparr>) = scn w"
    by (rule scene.equality)
       (auto simp add: fold_select_set select_all_DESELECT_def set_selected_objects fun_eq_iff)
  with False show ?thesis
    by (simp add: batch_export_meshes_def Let_def export_loop_skip_all [OF skip])
qed

theorem unexportable_selection_untouched_witness:
  "selected_objects (scn example_lights) = [1] \<and>
   obj_type (store (scn example_lights) 1) = ''LIGHT'' \<and>
   batch_export_meshes example_host ''/out'' True ''FBX'' ''SM_'' example_lights =
     (Inr (), example_lights)"
proof -
  have s: "selected_objects (scn example_lights) = [1]"
    by (simp add: selected_objects_def example_lights_def example_defs)
  have t: "obj_type (store (scn example_lights) 1) = ''LIGHT''"
    by (simp add: example_lights_def example_defs)
  have h: "\<forall>obj\<in>set (selected_objects (scn example_lights)).
     obj_type (store (scn example_lights) obj) \<noteq> ''MESH'' \<and>
     obj_type (store (scn example_lights) obj) \<noteq> ''ARMATURE''"
    using t by (simp add: s)
  have b: "basedir_of example_host ''/out'' = ''/out''"
    by (simp add: basedir_of_def)
  show ?thesis
    using t unexportable_selection_untouched [OF h, of example_host "''/out''" True "''FBX''" "''SM_''"]
    by (simp add: s b)
qed

text \<open>
  C8: with the freeze flag off, no location is altered: at every exporter call of the
  invocation every object is where it was before the invocation, and so it is when the
  routine returns or is left by an exception.
\<close>

theorem unfrozen_locations_untouched:
  assumes "batch_export_meshes h directory False file_type mesh_name_prefix w = (r, w')"
  shows "(\<forall>i. obj_location (store (scn w') i) = obj_location (store (scn w) i)) \<and>
         (\<exists>new. calls w' = calls w @ new \<and>
            (\<forall>x\<in>set new. \<forall>i.
               obj_location (store (snd x) i) = obj_location (store (scn w) i)))"
proof -
  have final: "\<forall>i. obj_location (store (scn w') i) = obj_location (store (scn w) i)"
  proof (cases "basedir_of h directory = []")
    case True
    with assms have "w' = w" by (simp add: batch_export_meshes_def)
    then show ?thesis by simp
  next
    case False
    define w2 where "w2 = snd (export_loop h (basedir_of h directory) False
      file_type mesh_name_prefix (selected_objects (scn w))
      (w\<lparr>scn := select_all_DESELECT (scn w)\<rparr>))"
    note run = batch_export_meshes_run [OF assms False, folded w2_def]
    from export_loop_unfrozen_same_data [OF run(1)]
    have loc2: "\<And>i. obj_location (store (scn w2) i) = obj_location (store (scn w) i)"
      by (simp add: same_data_def select_all_DESELECT_simps)
    show ?thesis
    proof (cases r)
      case (Inl e)
      with run(4) have "w' = w2" by simp
      with loc2 show ?thesis by simp
    next
      case (Inr u)
      with run(5) loc2 show ?thesis
        by (simp add: fold_select_set_simps)
    qed
  qed
  from batch_export_meshes_calls [OF assms] obtain new where
    new: "calls w' = calls w @ new"
      "\<forall>x\<in>set new. \<exists>obj\<in>set (selected_objects (scn w)).
        call_for h (basedir_of h directory) False file_type mesh_name_prefix (scn w) obj x"
    by (elim exE conjE)
  from new(2) have "\<forall>x\<in>set new. \<forall>i.
      obj_location (store (snd x) i) = obj_location (store (scn w) i)"
    by (auto simp add: call_for_def Let_def)
  with new(1) final show ?thesis by blast
qed

theorem unfrozen_locations_untouched_witness:
  "fst (example_run False ''FBX'') = Inr () \<and>
   obj_location (store (scn (snd (example_run False ''FBX''))) 0) = (1, 2, 3) \<and>
   obj_location (store (scn example_world) 0) = (1, 2, 3) \<and>
   map (\<lambda>x. obj_location (store (snd x) 0)) (calls (snd (example_run False ''FBX''))) =
     [(1, 2, 3)]"
  using unfrozen_locations_untouched [OF example_run_pair [OF example_run_fst(2)]]
  by (simp add: example_run_fst) (simp add: example_run_def model_defs example_defs)

section \<open>The exporter calls\<close>

lemma call_for_filepath:
  assumes "call_for h b fl ft pre sc obj x"
    and "(ft, ext) \<in> {(''FBX'', ''.fbx''), (''OBJ'', ''.obj''), (''GLTF'', ''.gltf''),
          (''DAE'', ''.dae'')}"
  shows "call_filepath (fst x) =
    os_path_join h b (pre @ bpy_path_clean_name h (obj_name (store sc obj))) @ ext"
  using assms by (auto simp add: call_for_def Let_def)

text \<open>
  One step of the loop with the freeze flag on: the exporter is called once, with the object
  active, selected and at the origin, and when the step finishes the object is where it was
  before the step.
\<close>

lemma export_object_frozen_step:
  assumes "obj_type (store (scn w) obj) = ''MESH'' \<or> obj_type (store (scn w) obj) = ''ARMATURE''"
    and "file_type = ''FBX'' \<or> file_type = ''OBJ'' \<or> file_type = ''GLTF'' \<or>
      file_type = ''DAE''"
    and "export_object h basedir True file_type mesh_name_prefix obj w = (r, w')"
  shows "(\<exists>c snap. calls w' = calls w @ [(c, snap)] \<and> active snap = Some obj \<and>
            obj_select (store snap obj) \<and> obj_location (store snap obj) = (0, 0, 0)) \<and>
         (\<forall>u. r = Inr u \<longrightarrow>
            obj_location (store (scn w') obj) = obj_location (store (scn w) obj))"
proof -
  have ex: "exportable (scn w) obj"
    using assms(1) by (simp add: exportable_def)
  from export_object_calls_valid [OF assms(3) ex assms(2)] obtain x where
    x: "calls w' = calls w @ [x]" "call_for h basedir True file_type mesh_name_prefix (scn w) obj x"
    by (elim exE conjE)
  from x(2) have "active (snd x) = Some obj \<and> obj_select (store (snd x) obj) \<and>
      obj_location (store (snd x) obj) = (0, 0, 0)"
    by (simp add: call_for_def Let_def)
  with x(1) have a: "\<exists>c snap. calls w' = calls w @ [(c, snap)] \<and> active snap = Some obj \<and>
            obj_select (store snap obj) \<and> obj_location (store snap obj) = (0, 0, 0)"
    by (intro exI [of _ "fst x"] exI [of _ "snd x"]) simp
  have b: "\<forall>u. r = Inr u \<longrightarrow>
            obj_location (store (scn w') obj) = obj_location (store (scn w) obj)"
  proof (intro allI impI)
    fix u assume "r = Inr u"
    with assms(3) have "same_data (scn w) (scn w')"
      by (simp add: export_object_Inr_same_data)
    then show "obj_location (store (scn w') obj) = obj_location (store (scn w) obj)"
      by (simp add: same_data_def)
  qed
  from a b show ?thesis by blast
qed

lemma batch_export_meshes_Inr_locations:
  assumes "batch_export_meshes h d fl ft pre w = (Inr u, w')"
  shows "obj_location (store (scn w') i) = obj_location (store (scn w) i)"
proof -
  have nonempty: "basedir_of h d \<noteq> []"
  proof
    assume "basedir_of h d = []"
    then have "batch_export_meshes h d fl ft pre w =
      (Inl (Exception ''Blend file is not saved''), w)"
      by (simp add: batch_export_meshes_def)
    with assms show False by simp
  qed
  define w2 where "w2 = snd (export_loop h (basedir_of h d) fl ft pre
    (selected_objects (scn w)) (w\<lparr>scn := select_all_DESELECT (scn w)\<rparr>))"
  note run = batch_export_meshes_run [OF assms nonempty, folded w2_def]
  from export_loop_Inr [OF run(1)]
  have "same_data (select_all_DESELECT (scn w)) (scn w2)"
    by simp
  then have "obj_location (store (scn w2) i) = obj_location (store (scn w) i)"
    by (simp add: same_data_def select_all_DESELECT_simps)
  with run(5) [OF refl] show ?thesis
    by (simp add: fold_select_set_simps)
qed

lemma list_all2_setD: "list_all2 P xs ys \<Longrightarrow> y \<in> set ys \<Longrightarrow> \<exists>x. P x y"
  by (induction xs ys rule: list_all2_induct) auto

lemma call_for_frozen:
  assumes "call_for h b True ft pre sc obj x"
  shows "Some obj = active (snd x)"
    and "obj_select (store (snd x) obj)"
    and "obj_location (store (snd x) obj) = (0, 0, 0)"
    and "i \<noteq> obj \<Longrightarrow> obj_location (store (snd x) i) = obj_location (store sc i)"
  using assms by (simp_all add: call_for_def Let_def)

text \<open>
  C3: in an invocation with the freeze flag on, the exporter is called for the selected meshes
  and armatures in order, each of them being then the active object, selected and at the
  origin (0,0,0), while every other object, so every object exported before, is where it
  was before the invocation: an object is back at its location once its export step has
  finished. When the invocation runs to completion, every selected mesh and armature was
  exported and every object is where it was before.
\<close>

theorem frozen_location_during_export:
  assumes "batch_export_meshes h directory True file_type mesh_name_prefix w = (r, w')"
    and "file_type = ''FBX'' \<or> file_type = ''OBJ'' \<or> file_type = ''GLTF'' \<or>
      file_type = ''DAE''"
  shows "\<exists>new. calls w' = calls w @ new \<and>
     map (\<lambda>x. active (snd x)) new =
       map Some (take (length new)
         (filter (exportable (scn w)) (selected_objects (scn w)))) \<and>
     (\<forall>x\<in>set new. \<forall>obj. active (snd x) = Some obj \<longrightarrow>
        obj_select (store (snd x) obj) \<and>
        obj_location (store (snd x) obj) = (0, 0, 0) \<and>
        (\<forall>i. i \<noteq> obj \<longrightarrow>
           obj_location (store (snd x) i) = obj_location (store (scn w) i))) \<and>
     (\<forall>u. r = Inr u \<longrightarrow>
        length new = length (filter (exportable (scn w)) (selected_objects (scn w))) \<and>
        (\<forall>i. obj_location (store (scn w') i) = obj_location (store (scn w) i)))"
proof (cases "basedir_of h directory = []")
  case True
  with assms(1) have "w' = w" "r = Inl (Exception ''Blend file is not saved'')"
    by (simp_all add: batch_export_meshes_def)
  then show ?thesis by (intro exI [of _ "[]"]) simp
next
  case False
  from batch_export_meshes_calls_exact [OF assms(1,2) False] obtain new where
    new: "calls w' = calls w @ new"
      "list_all2 (\<lambda>obj x. call_for h (basedir_of h directory) True file_type
           mesh_name_prefix (scn w) obj x)
         (take (length new) (filter (exportable (scn w)) (selected_objects (scn w)))) new"
      "\<forall>u. r = Inr u \<longrightarrow>
         length new = length (filter (exportable (scn w)) (selected_objects (scn w)))"
    by (elim exE conjE)
  have "list_all2 (\<lambda>obj x. Some obj = active (snd x))
         (take (length new) (filter (exportable (scn w)) (selected_objects (scn w)))) new"
    using new(2) by (rule list_all2_mono) (rule call_for_frozen(1))
  then have act: "map (\<lambda>x. active (snd x)) new =
       map Some (take (length new)
         (filter (exportable (scn w)) (selected_objects (scn w))))"
    by (rule list_all2_map_eq [symmetric])
  have at_call: "\<forall>x\<in>set new. \<forall>obj. active (snd x) = Some obj \<longrightarrow>
        obj_select (store (snd x) obj) \<and>
        obj_location (store (snd x) obj) = (0, 0, 0) \<and>
        (\<forall>i. i \<noteq> obj \<longrightarrow>
           obj_location (store (snd x) i) = obj_location (store (scn w) i))"
  proof (intro ballI allI impI)
    fix x obj
    assume x: "x \<in> set new" and a: "active (snd x) = Some obj"
    from new(2) x obtain o2 where
      c: "call_for h (basedir_of h directory) True file_type mesh_name_prefix (scn w) o2 x"
      by (blast dest: list_all2_setD)
    from call_for_frozen(1) [OF c] a have "o2 = obj" by simp
    with c have c': "call_for h (basedir_of h directory) True file_type mesh_name_prefix
        (scn w) obj x"
      by simp
    show "obj_select (store (snd x) obj) \<and>
        obj_location (store (snd x) obj) = (0, 0, 0) \<and>
        (\<forall>i. i \<noteq> obj \<longrightarrow>
           obj_location (store (snd x) i) = obj_location (store (scn w) i))"
      using call_for_frozen(2,3,4) [OF c'] by simp
  qed
  have fin: "\<forall>u. r = Inr u \<longrightarrow>
        length new = length (filter (exportable (scn w)) (selected_objects (scn w))) \<and>
        (\<forall>i. obj_location (store (scn w') i) = obj_location (store (scn w) i))"
  proof (intro allI impI)
    fix u assume r: "r = Inr u"
    with assms(1) have "\<And>i. obj_location (store (scn w') i) = obj_location (store (scn w) i)"
      by (simp add: batch_export_meshes_Inr_locations)
    with new(3) r show "length new =
        length (filter (exportable (scn w)) (selected_objects (scn w))) \<and>
        (\<forall>i. obj_location (store (scn w') i) = obj_location (store (scn w) i))"
      by simp
  qed
  from new(1) act at_call fin show ?thesis by (intro exI [of _ new]) simp
qed

theorem frozen_location_during_export_witness:
  "fst (example_run True ''FBX'') = Inr () \<and>
   filter (exportable (scn example_world)) (selected_objects (scn example_world)) = [0] \<and>
   obj_location (store (scn example_world) 0) = (1, 2, 3) \<and>
   map (\<lambda>x. (active (snd x), obj_select (store (snd x) 0), obj_location (store (snd x) 0)))
     (calls (snd (example_run True ''FBX''))) = [(Some 0, True, (0, 0, 0))] \<and>
   obj_location (store (scn (snd (example_run True ''FBX''))) 0) = (1, 2, 3)"
  using frozen_location_during_export
    [OF example_run_pair [OF example_run_fst(1)] disjI1 [OF refl]]
  by (simp add: example_run_fst example_exportable)
     (simp add: example_run_def model_defs example_defs)

text \<open>
  C4: the path given to the exporter for an object is the directory joined with
  \<open>prefix + clean_name(name)\<close>, followed by the extension of the format; with an empty
  prefix it is the directory joined with the cleaned name, followed by the extension. The
  calls of an invocation are those of the selected meshes and armatures, in the order of the
  selection, up to where the invocation stopped, and all of them when it ran to completion.
\<close>

theorem export_filenames:
  assumes "batch_export_meshes h directory freeze_locations file_type mesh_name_prefix w =
      (r, w')"
    and "(file_type, ext) \<in> {(''FBX'', ''.fbx''), (''OBJ'', ''.obj''), (''GLTF'', ''.gltf''),
          (''DAE'', ''.dae'')}"
  shows "\<exists>new. calls w' = calls w @ new \<and>
     map (call_filepath \<circ> fst) new =
       map (\<lambda>obj. os_path_join h (basedir_of h directory)
                 (mesh_name_prefix @ bpy_path_clean_name h (obj_name (store (scn w) obj))) @ ext)
         (take (length new) (filter (exportable (scn w)) (selected_objects (scn w)))) \<and>
     (mesh_name_prefix = [] \<longrightarrow>
        map (call_filepath \<circ> fst) new =
          map (\<lambda>obj. os_path_join h (basedir_of h directory)
                    (bpy_path_clean_name h (obj_name (store (scn w) obj))) @ ext)
            (take (length new) (filter (exportable (scn w)) (selected_objects (scn w))))) \<and>
     (\<forall>u. r = Inr u \<longrightarrow>
        length new = length (filter (exportable (scn w)) (selected_objects (scn w))))"
proof (cases "basedir_of h directory = []")
  case True
  with assms(1) have "w' = w" "r = Inl (Exception ''Blend file is not saved'')"
    by (simp_all add: batch_export_meshes_def)
  then have "calls w' = calls w @ []" by simp
  with \<open>r = Inl _\<close> show ?thesis by (intro exI [of _ "[]"]) simp
next
  case False
  have ft: "file_type = ''FBX'' \<or> file_type = ''OBJ'' \<or> file_type = ''GLTF'' \<or>
      file_type = ''DAE''"
    using assms(2) by auto
  from batch_export_meshes_calls_exact [OF assms(1) ft False] obtain new where
    new: "calls w' = calls w @ new"
      "list_all2 (\<lambda>obj x. call_for h (basedir_of h directory) freeze_locations file_type
           mesh_name_prefix (scn w) obj x)
         (take (length new) (filter (exportable (scn w)) (selected_objects (scn w)))) new"
      "\<forall>u. r = Inr u \<longrightarrow>
         length new = length (filter (exportable (scn w)) (selected_objects (scn w)))"
    by (elim exE conjE)
  have "list_all2 (\<lambda>obj x.
          os_path_join h (basedir_of h directory)
            (mesh_name_prefix @ bpy_path_clean_name h (obj_name (store (scn w) obj))) @ ext =
          (call_filepath \<circ> fst) x)
         (take (length new) (filter (exportable (scn w)) (selected_objects (scn w)))) new"
    using new(2)
  proof (rule list_all2_mono)
    fix obj x
    assume "call_for h (basedir_of h directory) freeze_locations file_type
           mesh_name_prefix (scn w) obj x"
    from call_for_filepath [OF this assms(2)]
    show "os_path_join h (basedir_of h directory)
            (mesh_name_prefix @ bpy_path_clean_name h (obj_name (store (scn w) obj))) @ ext =
          (call_filepath \<circ> fst) x"
      by simp
  qed
  then have paths: "map (call_filepath \<circ> fst) new =
       map (\<lambda>obj. os_path_join h (basedir_of h directory)
                 (mesh_name_prefix @ bpy_path_clean_name h (obj_name (store (scn w) obj))) @ ext)
         (take (length new) (filter (exportable (scn w)) (selected_objects (scn w))))"
    by (rule list_all2_map_eq [symmetric])
  have "mesh_name_prefix = [] \<longrightarrow>
        map (call_filepath \<circ> fst) new =
          map (\<lambda>obj. os_path_join h (basedir_of h directory)
                    (bpy_path_clean_name h (obj_name (store (scn w) obj))) @ ext)
            (take (length new) (filter (exportable (scn w)) (selected_objects (scn w))))"
    using paths by simp
  with new(1,3) paths show ?thesis by (intro exI [of _ new]) simp
qed

theorem export_filenames_witness:
  "fst (example_run True ''FBX'') = Inr () \<and>
   filter (exportable (scn example_world)) (selected_objects (scn example_world)) = [0] \<and>
   bpy_path_clean_name example_host (obj_name (store (scn example_world) 0)) = ''MeshA'' \<and>
   map (call_filepath \<circ> fst) (calls (snd (example_run True ''FBX''))) = [''/out/SM_MeshA.fbx'']"
  using export_filenames [OF example_run_pair [OF example_run_fst(1)], of "''.fbx''"]
  by (simp add: example_run_fst example_exportable)
     (simp add: example_run_def model_defs example_defs)

text \<open>
  C5: with the format DAE, every exporter call of the routine is a call of the FBX
  exporter, not of the Collada exporter, with a path that ends in \<^verbatim>\<open>.dae\<close>;
  a completed invocation makes one such call for each selected mesh or armature.
\<close>

theorem dae_uses_fbx_exporter:
  assumes "batch_export_meshes h directory freeze_locations ''DAE'' mesh_name_prefix w =
      (r, w')"
  shows "\<exists>new. calls w' = calls w @ new \<and>
     (\<forall>x\<in>set new. call_op (fst x) = export_scene_fbx \<and>
        call_op (fst x) \<noteq> wm_collada_export \<and>
        (\<exists>fn. call_filepath (fst x) = fn @ ''.dae'')) \<and>
     (\<forall>u. r = Inr u \<longrightarrow>
        length new = length (filter (exportable (scn w)) (selected_objects (scn w))))"
proof -
  from batch_export_meshes_calls [OF assms] obtain new where
    new: "calls w' = calls w @ new"
      "\<forall>x\<in>set new. \<exists>obj\<in>set (selected_objects (scn w)).
        call_for h (basedir_of h directory) freeze_locations ''DAE'' mesh_name_prefix
          (scn w) obj x"
    by (elim exE conjE)
  from new(2) have ops: "\<forall>x\<in>set new. call_op (fst x) = export_scene_fbx \<and>
        call_op (fst x) \<noteq> wm_collada_export \<and>
        (\<exists>fn. call_filepath (fst x) = fn @ ''.dae'')"
    by (auto simp add: call_for_def Let_def)
  have len: "\<forall>u. r = Inr u \<longrightarrow>
        length new = length (filter (exportable (scn w)) (selected_objects (scn w)))"
  proof (cases "basedir_of h directory = []")
    case True
    with assms have "r = Inl (Exception ''Blend file is not saved'')"
      by (simp add: batch_export_meshes_def)
    then show ?thesis by simp
  next
    case False
    from batch_export_meshes_calls_exact [OF assms _ False] obtain new' where
      new': "calls w' = calls w @ new'"
        "\<forall>u. r = Inr u \<longrightarrow>
           length new' = length (filter (exportable (scn w)) (selected_objects (scn w)))"
      by auto
    from new(1) new'(1) have "new' = new" by simp
    with new'(2) show ?thesis by simp
  qed
  from new(1) ops len show ?thesis by (intro exI [of _ new]) simp
qed

theorem dae_uses_fbx_exporter_witness:
  "fst (example_run True ''DAE'') = Inr () \<and>
   map (\<lambda>x. (call_op (fst x), call_filepath (fst x))) (calls (snd (example_run True ''DAE''))) =
     [(export_scene_fbx, ''/out/SM_MeshA.dae'')]"
  using dae_uses_fbx_exporter [OF example_run_pair [OF example_run_fst(3)]]
  by (simp add: example_run_fst) (simp add: example_run_def model_defs example_defs)

end
